theory Spec2Isabelle
  imports Complex_Main "HOL-Library.Word" "HOL-Library.AList"
begin

unbundle bit_operations_syntax

section \<open>JavaScript values\<close>

text \<open>
  JSON data as the configuration carries it. Numbers are the integers (the configuration
  schema asks for whole minutes); a string is the list of its code units, here the units
  below 256, so that \<open>charCodeAt\<close> is \<^const>\<open>of_char\<close>. An object is the list of
  its properties in insertion order.
\<close>

datatype json =
    JNull
  | JBool bool
  | JNum int
  | JStr string
  | JArr "json list"
  | JObj "(string \<times> json) list"

type_synonym js_object = "(string \<times> json) list"

text \<open>Truthiness of an optional string: \<open>undefined\<close> and \<open>""\<close> are falsy.\<close>

definition truthy :: "string option \<Rightarrow> bool" where
  "truthy s = (case s of None \<Rightarrow> False | Some x \<Rightarrow> x \<noteq> [])"

text \<open>The operator \<open>a || b\<close> on optional strings.\<close>

definition js_or :: "string option \<Rightarrow> string option \<Rightarrow> string option" where
  "js_or a b = (if truthy a then a else b)"

text \<open>
  Object spread \<open>{...src}\<close> into an object under construction: every property of \<open>src\<close>
  is assigned in order. Assigning an existing property keeps its position
  (\<^const>\<open>AList.update\<close>).
\<close>

definition spread :: "js_object \<Rightarrow> js_object \<Rightarrow> js_object" where
  "spread src obj = fold (\<lambda>(k, v). AList.update k v) src obj"

subsection \<open>Number.prototype.toString and JSON.stringify\<close>

definition digit_char :: "nat \<Rightarrow> char" where
  "digit_char d = char_of (48 + d)"

fun show_nat :: "nat \<Rightarrow> string" where
  "show_nat n = (if n < 10 then [digit_char n] else show_nat (n div 10) @ [digit_char (n mod 10)])"

declare show_nat.simps [simp del]

definition show_int :: "int \<Rightarrow> string" where
  "show_int i = (if i < 0 then CHR ''-'' # show_nat (nat (- i)) else show_nat (nat i))"

definition hex_char :: "nat \<Rightarrow> char" where
  "hex_char d = (if d < 10 then char_of (48 + d) else char_of (87 + d))"

text \<open>The escapes of \<open>JSON.stringify\<close> (QuoteJSONString) for one code unit.\<close>

definition quote_char :: "char \<Rightarrow> string" where
  "quote_char c =
     (if c = CHR 0x22 then [CHR 0x5C, CHR 0x22]
      else if c = CHR 0x5C then [CHR 0x5C, CHR 0x5C]
      else if c = CHR 0x08 then [CHR 0x5C, CHR ''b'']
      else if c = CHR 0x0C then [CHR 0x5C, CHR ''f'']
      else if c = CHR 0x0A then [CHR 0x5C, CHR ''n'']
      else if c = CHR 0x0D then [CHR 0x5C, CHR ''r'']
      else if c = CHR 0x09 then [CHR 0x5C, CHR ''t'']
      else if (of_char c :: nat) < 32
        then [CHR 0x5C, CHR ''u'', CHR ''0'', CHR ''0'',
              hex_char (of_char c div 16), hex_char (of_char c mod 16)]
      else [c])"

definition quote_string :: "string \<Rightarrow> string" where
  "quote_string s = [CHR 0x22] @ concat (map quote_char s) @ [CHR 0x22]"

fun join_comma :: "string list \<Rightarrow> string" where
  "join_comma [] = []"
| "join_comma [x] = x"
| "join_comma (x # y # ys) = x @ '','' @ join_comma (y # ys)"

fun stringify :: "json \<Rightarrow> string" where
  "stringify JNull = ''null''"
| "stringify (JBool b) = (if b then ''true'' else ''false'')"
| "stringify (JNum n) = show_int n"
| "stringify (JStr s) = quote_string s"
| "stringify (JArr xs) = ''['' @ join_comma (map stringify xs) @ '']''"
| "stringify (JObj kvs) =
     ''{'' @ join_comma (map (\<lambda>(k, v). quote_string k @ '':'' @ stringify v) kvs) @ ''}''"

section \<open>types.ts\<close>

record AppConfig =
  expirationMinutes :: int
  audience :: "string option"
  additionalClaims :: "js_object option"
  keyring :: "string option"

record TokenData =
  token :: string
  expiresAt :: int
  configHash :: string

definition getKeyPrefix :: "string \<Rightarrow> string" where
  "getKeyPrefix kr = ''key:'' @ kr @ '':''"

definition CURRENT_TOKEN_KEY :: string where
  "CURRENT_TOKEN_KEY = ''current_token''"

definition ROTATION_TIMER_KEY :: string where
  "ROTATION_TIMER_KEY = ''rotation_timer_id''"

definition KEY_GRACE_PERIOD_MINUTES :: int where
  "KEY_GRACE_PERIOD_MINUTES = 30"

definition ALGORITHM :: string where
  "ALGORITHM = ''RS256''"

definition JWKS_RESPONSE_HEADERS :: "(string \<times> string) list" where
  "JWKS_RESPONSE_HEADERS =
     [(''Content-Type'', ''application/json; charset=utf-8''), (''Cache-Control'', ''no-cache'')]"

section \<open>crypto.ts: hashConfig\<close>

type_synonym int32 = "32 word"

text \<open>
  \<open>JSON.stringify\<close> of the object literal of \<open>hashConfig\<close>: a property whose value is
  \<open>undefined\<close> is left out.
\<close>

definition configStr :: "AppConfig \<Rightarrow> string" where
  "configStr config =
     stringify (JObj
       ([(''expirationMinutes'', JNum (expirationMinutes config))]
        @ (case audience config of None \<Rightarrow> [] | Some a \<Rightarrow> [(''audience'', JStr a)])
        @ (case additionalClaims config of None \<Rightarrow> [] | Some c \<Rightarrow> [(''additionalClaims'', JObj c)])
        @ (case keyring config of None \<Rightarrow> [] | Some k \<Rightarrow> [(''keyring'', JStr k)])))"

text \<open>
  The loop body \<open>hash = (hash << 5) - hash + char; hash = hash & hash\<close>: the value is
  brought back to a 32-bit integer in every round, which is arithmetic in \<open>32 word\<close>.
\<close>

fun hash_loop :: "int32 \<Rightarrow> string \<Rightarrow> int32" where
  "hash_loop hash [] = hash"
| "hash_loop hash (c # cs) = hash_loop (push_bit 5 hash - hash + of_nat (of_char c)) cs"

definition hashConfig :: "AppConfig \<Rightarrow> string" where
  "hashConfig config = show_int (sint (hash_loop 0 (configStr config)))"

section \<open>The runtime: key-value store, timers, lifecycle\<close>

datatype error = CryptoError | UrlError | SignError | KvError | TimerError | SyncError

type_synonym JWK = js_object

datatype kv_value = VJwk JWK | VToken TokenData | VTimer string

text \<open>
  An entry of the store: its value, the time-to-live it was stored with (in seconds) and
  the time at which it was stored. The store drops an entry \<open>entry_ttl\<close> seconds after
  \<open>entry_createdAt\<close>.
\<close>

record kv_entry =
  entry_value :: kv_value
  entry_ttl :: "int option"
  entry_createdAt :: int

definition entry_expiresAt :: "kv_entry \<Rightarrow> int option" where
  "entry_expiresAt e = map_option (\<lambda>t. entry_createdAt e + t) (entry_ttl e)"

record timer =
  timer_id :: string
  timer_delay :: int
  timer_description :: string

text \<open>
  The state that the handlers share: the store, the wakeups armed so far in the order in
  which they were armed (\<open>timers.unset\<close> removes one), and the number of reconciliation
  passes requested through \<open>lifecycle.sync()\<close>.
\<close>

record state =
  kv :: "string \<rightharpoonup> kv_entry"
  timers :: "timer list"
  sync_requests :: nat

record url =
  origin :: string
  hostname :: string

text \<open>
  What the platform answers during one handler invocation: the clock, the random
  identifiers, the key pair, the parsed URL, the signature, and for every call of the SDK
  whether it succeeds (\<open>None\<close> or \<open>False\<close>: the call throws).
\<close>

record world =
  w_now :: int
  w_keyId :: string
  w_jti :: string
  w_keyPair :: "(JWK \<times> JWK) option"
  w_url :: "string \<Rightarrow> url option"
  w_sign :: "js_object \<Rightarrow> JWK \<Rightarrow> js_object \<Rightarrow> string option"
  w_kv_get_ok :: bool
  w_kv_setMany_ok :: bool
  w_timers_set :: "string option"
  w_kv_set_ok :: bool
  w_kv_get_timer_ok :: bool
  w_timers_unset_ok :: bool
  w_sync_ok :: bool
  w_retry_timers_set :: "string option"
  w_retry_kv_set_ok :: bool
  w_kv_list :: "string \<Rightarrow> string option \<Rightarrow> ((string \<times> JWK) list \<times> string option) option"

type_synonym 'a io = "state \<Rightarrow> (error + 'a) \<times> state"

definition io_bind :: "'a io \<Rightarrow> ('a \<Rightarrow> 'b io) \<Rightarrow> 'b io" where
  "io_bind m f st = (case m st of (Inl e, st') \<Rightarrow> (Inl e, st') | (Inr x, st') \<Rightarrow> f x st')"

definition io_return :: "'a \<Rightarrow> 'a io" where
  "io_return x st = (Inr x, st)"

definition io_throw :: "error \<Rightarrow> 'a io" where
  "io_throw e st = (Inl e, st)"

definition io_catch :: "'a io \<Rightarrow> (error \<Rightarrow> 'a io) \<Rightarrow> 'a io" where
  "io_catch m h st = (case m st of (Inl e, st') \<Rightarrow> h e st' | (Inr x, st') \<Rightarrow> (Inr x, st'))"

definition kv_app_get :: "bool \<Rightarrow> string \<Rightarrow> kv_value option io" where
  "kv_app_get ok key st =
     (if ok then (Inr (map_option entry_value (kv st key)), st) else (Inl KvError, st))"

definition kv_put :: "int \<Rightarrow> string \<times> kv_value \<times> int option \<Rightarrow> state \<Rightarrow> state" where
  "kv_put now p st =
     (case p of (key, v, ttl) \<Rightarrow>
        st\<lparr>kv := (kv st)(key \<mapsto> \<lparr>entry_value = v, entry_ttl = ttl, entry_createdAt = now\<rparr>)\<rparr>)"

text \<open>\<open>kv.app.setMany\<close> writes the pairs in order, or nothing when the call fails.\<close>

definition kv_app_setMany :: "bool \<Rightarrow> int \<Rightarrow> (string \<times> kv_value \<times> int option) list \<Rightarrow> unit io" where
  "kv_app_setMany ok now ps st =
     (if ok then (Inr (), fold (kv_put now) ps st) else (Inl KvError, st))"

definition kv_app_set :: "bool \<Rightarrow> int \<Rightarrow> string \<Rightarrow> kv_value \<Rightarrow> unit io" where
  "kv_app_set ok now key v st =
     (if ok then (Inr (), kv_put now (key, v, None) st) else (Inl KvError, st))"

definition timers_set :: "string option \<Rightarrow> int \<Rightarrow> string \<Rightarrow> string io" where
  "timers_set res delay description st =
     (case res of
        None \<Rightarrow> (Inl TimerError, st)
      | Some tid \<Rightarrow>
          (Inr tid,
           st\<lparr>timers := timers st @
                 [\<lparr>timer_id = tid, timer_delay = delay, timer_description = description\<rparr>]\<rparr>))"

definition timers_unset :: "bool \<Rightarrow> string \<Rightarrow> unit io" where
  "timers_unset ok tid st =
     (if ok then (Inr (), st\<lparr>timers := filter (\<lambda>t. timer_id t \<noteq> tid) (timers st)\<rparr>)
      else (Inl TimerError, st))"

text \<open>\<open>lifecycle.sync()\<close> asks the runtime for a reconciliation pass.\<close>

definition lifecycle_sync :: "bool \<Rightarrow> unit io" where
  "lifecycle_sync ok st =
     (if ok then (Inr (), st\<lparr>sync_requests := Suc (sync_requests st)\<rparr>) else (Inl SyncError, st))"

section \<open>crypto.ts: token and key generation\<close>

text \<open>\<open>createJWT\<close>: sign the payload under the protected header \<open>{alg, typ, kid}\<close>.\<close>

definition createJWT :: "world \<Rightarrow> string \<Rightarrow> JWK \<Rightarrow> js_object \<Rightarrow> string option" where
  "createJWT w kid privateKey payload =
     w_sign w [(''alg'', JStr ALGORITHM), (''typ'', JStr ''JWT''), (''kid'', JStr kid)]
       privateKey payload"

text \<open>
  The object literal that \<open>generateToken\<close> passes to \<open>createJWT\<close>, its properties
  evaluated in source order: the spread of the additional claims, then the standard claims.
\<close>

definition claimsPayload :: "world \<Rightarrow> AppConfig \<Rightarrow> string \<Rightarrow> int \<Rightarrow> int \<Rightarrow> error + js_object" where
  "claimsPayload w config appUrl now expires =
     (case w_url w appUrl of
        None \<Rightarrow> Inl UrlError
      | Some u \<Rightarrow>
          Inr (AList.update ''nbf'' (JNum now)
              (AList.update ''iat'' (JNum now)
              (AList.update ''exp'' (JNum expires)
              (AList.update ''aud''
                 (JStr (case audience config of
                          None \<Rightarrow> hostname u
                        | Some a \<Rightarrow> if a \<noteq> [] then a else hostname u))
              (AList.update ''sub'' (JStr ''flows'')
              (AList.update ''iss'' (JStr (origin u))
              (AList.update ''jti'' (JStr (w_jti w))
              (spread (case additionalClaims config of None \<Rightarrow> [] | Some c \<Rightarrow> c) [])))))))))"

definition generateToken :: "world \<Rightarrow> AppConfig \<Rightarrow> string \<Rightarrow> string \<Rightarrow> JWK \<Rightarrow> error + TokenData" where
  "generateToken w config appUrl kid privateKey =
     (let now = w_now w;
          expires = now + expirationMinutes config * 60
      in case claimsPayload w config appUrl now expires of
           Inl e \<Rightarrow> Inl e
         | Inr payload \<Rightarrow>
             (case createJWT w kid privateKey payload of
                None \<Rightarrow> Inl SignError
              | Some t \<Rightarrow> Inr \<lparr>token = t, expiresAt = expires, configHash = hashConfig config\<rparr>))"

definition generateKeyAndToken :: "world \<Rightarrow> AppConfig \<Rightarrow> string \<Rightarrow> TokenData io" where
  "generateKeyAndToken w config appUrl st =
     (let newKeyId = w_keyId w
      in case w_keyPair w of
           None \<Rightarrow> (Inl CryptoError, st)
         | Some (privateKey, publicKey) \<Rightarrow>
             (case generateToken w config appUrl newKeyId privateKey of
                Inl e \<Rightarrow> (Inl e, st)
              | Inr tokenData \<Rightarrow>
                  (let tokenExpirationMinutes = expirationMinutes config;
                       keyTtlSeconds = (KEY_GRACE_PERIOD_MINUTES + tokenExpirationMinutes) * 60
                   in io_bind
                        (kv_app_setMany (w_kv_setMany_ok w) (w_now w)
                           [(getKeyPrefix (case keyring config of
                                             None \<Rightarrow> ''default''
                                           | Some k \<Rightarrow> if k \<noteq> [] then k else ''default'')
                               @ newKeyId,
                             VJwk publicKey, Some keyTtlSeconds),
                            (CURRENT_TOKEN_KEY, VToken tokenData, None)])
                        (\<lambda>_. io_return tokenData) st)))"

section \<open>main.ts\<close>

record signals =
  sig_token :: "string option"
  sig_expiresAt :: "int option"
  sig_issuer :: "string option"
  sig_keyring :: "string option"

record app =
  app_config :: AppConfig
  app_signals :: signals
  app_url :: string

record signal_updates =
  su_token :: string
  su_expiresAt :: int
  su_issuer :: string
  su_keyring :: "string option"

datatype sync_result = Ready signal_updates | Failed string

definition calculateRotationInterval :: "int \<Rightarrow> int" where
  "calculateRotationInterval minutes = max 5 (minutes div 2)"

definition createSignalUpdates :: "url \<Rightarrow> TokenData \<Rightarrow> string option \<Rightarrow> signal_updates" where
  "createSignalUpdates u tokenData kr =
     \<lparr>su_token = token tokenData, su_expiresAt = expiresAt tokenData,
      su_issuer = origin u, su_keyring = kr\<rparr>"

definition handleInitialSetup ::
  "world \<Rightarrow> AppConfig \<Rightarrow> string \<Rightarrow> string option \<Rightarrow> (TokenData \<times> string option) io" where
  "handleInitialSetup w config appUrl configKeyring =
     io_bind (generateKeyAndToken w config appUrl) (\<lambda>tokenData.
       let rotationInterval = calculateRotationInterval (expirationMinutes config)
       in io_bind
            (timers_set (w_timers_set w) (rotationInterval * 60)
               (''Initial key rotation scheduled for '' @ show_int rotationInterval @ '' minutes''))
            (\<lambda>timerId.
               io_bind (kv_app_set (w_kv_set_ok w) (w_now w) ROTATION_TIMER_KEY (VTimer timerId))
                 (\<lambda>_. io_return (tokenData, configKeyring))))"

text \<open>
  The store is written by this program only: a timer id under \<open>rotation_timer_id\<close>, a
  \<open>TokenData\<close> under \<open>current_token\<close>. A value of another shape reads as absent.
\<close>

definition as_timer :: "kv_value option \<Rightarrow> string option" where
  "as_timer v = (case v of Some (VTimer i) \<Rightarrow> Some i | _ \<Rightarrow> None)"

definition as_token :: "kv_value option \<Rightarrow> TokenData option" where
  "as_token v = (case v of Some (VToken t) \<Rightarrow> Some t | _ \<Rightarrow> None)"

definition handleConfigChange ::
  "world \<Rightarrow> AppConfig \<Rightarrow> string \<Rightarrow> string option \<Rightarrow> (TokenData \<times> string option) io" where
  "handleConfigChange w config appUrl configKeyring =
     io_bind (generateKeyAndToken w config appUrl) (\<lambda>tokenData.
     io_bind (kv_app_get (w_kv_get_timer_ok w) ROTATION_TIMER_KEY) (\<lambda>existing.
     io_bind (if truthy (as_timer existing)
              then timers_unset (w_timers_unset_ok w) (the (as_timer existing))
              else io_return ()) (\<lambda>_.
       let newRotationInterval = calculateRotationInterval (expirationMinutes config)
       in io_bind
            (timers_set (w_timers_set w) (newRotationInterval * 60)
               (''Key rotation rescheduled after config change ('' @ show_int newRotationInterval
                  @ '' minutes)''))
            (\<lambda>newTimerId.
               io_bind (kv_app_set (w_kv_set_ok w) (w_now w) ROTATION_TIMER_KEY (VTimer newTimerId))
                 (\<lambda>_. io_return (tokenData, configKeyring))))))"

text \<open>
  The body of the \<open>try\<close> of \<open>onSync\<close> after the validation; \<open>createSignalUpdates\<close>
  parses the app URL, which may throw like everything else in the block.
\<close>

definition onSync_body :: "world \<Rightarrow> app \<Rightarrow> signal_updates io" where
  "onSync_body w a =
     (let config = app_config a;
          currentConfigHash = hashConfig config;
          configKeyring = keyring config;
          currentKeyring = js_or (sig_keyring (app_signals a)) configKeyring
      in io_bind (kv_app_get (w_kv_get_ok w) CURRENT_TOKEN_KEY) (\<lambda>currentToken.
         io_bind
           (case as_token currentToken of
              None \<Rightarrow> handleInitialSetup w config (app_url a) configKeyring
            | Some t \<Rightarrow>
                if configHash t \<noteq> currentConfigHash
                then handleConfigChange w config (app_url a) configKeyring
                else io_return (t, currentKeyring))
           (\<lambda>(tokenData, activeKeyring).
              case w_url w (app_url a) of
                None \<Rightarrow> io_throw UrlError
              | Some u \<Rightarrow> io_return (createSignalUpdates u tokenData activeKeyring))))"

definition onSync :: "world \<Rightarrow> app \<Rightarrow> state \<Rightarrow> sync_result \<times> state" where
  "onSync w a st =
     (if expirationMinutes (app_config a) < 10
      then (Failed ''Token expiration time must be at least 10 minutes'', st)
      else case onSync_body w a st of
             (Inr updates, st') \<Rightarrow> (Ready updates, st')
           | (Inl e, st') \<Rightarrow> (Failed ''Sync error, see logs'', st'))"

text \<open>The runtime publishes the signal updates of a pass that ends ready.\<close>

definition publish :: "sync_result \<Rightarrow> app \<Rightarrow> app" where
  "publish r a =
     (case r of
        Failed _ \<Rightarrow> a
      | Ready u \<Rightarrow>
          a\<lparr>app_signals := \<lparr>sig_token = Some (su_token u), sig_expiresAt = Some (su_expiresAt u),
                             sig_issuer = Some (su_issuer u), sig_keyring = su_keyring u\<rparr>\<rparr>)"

text \<open>\<open>onTimer\<close>: the \<open>try\<close> block, and the \<open>catch\<close> block that runs from the state it left.\<close>

definition onTimer_try :: "world \<Rightarrow> app \<Rightarrow> unit io" where
  "onTimer_try w a =
     (let config = app_config a
      in io_bind (generateKeyAndToken w config (app_url a)) (\<lambda>_.
         io_bind (lifecycle_sync (w_sync_ok w)) (\<lambda>_.
           let nextInterval = calculateRotationInterval (expirationMinutes config)
           in io_bind
                (timers_set (w_timers_set w) (nextInterval * 60)
                   (''Key rotation scheduled for '' @ show_int nextInterval @ '' minutes''))
                (\<lambda>nextTimerId.
                   kv_app_set (w_kv_set_ok w) (w_now w) ROTATION_TIMER_KEY (VTimer nextTimerId)))))"

definition onTimer_catch :: "world \<Rightarrow> error \<Rightarrow> unit io" where
  "onTimer_catch w e =
     io_bind (timers_set (w_retry_timers_set w) 300 ''Key rotation retry after failure (5 minutes)'')
       (\<lambda>retryTimerId.
          kv_app_set (w_retry_kv_set_ok w) (w_now w) ROTATION_TIMER_KEY (VTimer retryTimerId))"

definition onTimer :: "world \<Rightarrow> app \<Rightarrow> unit io" where
  "onTimer w a = io_catch (onTimer_try w a) (onTimer_catch w)"

section \<open>handlers.ts\<close>

record http_response =
  requestId :: string
  statusCode :: nat
  headers :: "(string \<times> string) list"
  body_keys :: "JWK list"

text \<open>
  The \<open>do ... while (startingKey)\<close> loop over the pages of \<open>kv.app.list\<close>. Nothing in the
  program bounds the number of pages, so the loop is a partial function: \<open>None\<close> is a
  loop that never ends.
\<close>

partial_function (option) jwks_pages ::
  "world \<Rightarrow> string \<Rightarrow> string option \<Rightarrow> JWK list \<Rightarrow> (error + JWK list) option" where
  "jwks_pages w keyPrefix startingKey pubKeys =
     (case w_kv_list w keyPrefix startingKey of
        None \<Rightarrow> Some (Inl KvError)
      | Some (pairs, nextStartingKey) \<Rightarrow>
          (let pubKeys' = pubKeys @
                 map (\<lambda>pair. AList.update ''use'' (JStr ''sig'')
                               (AList.update ''alg'' (JStr ALGORITHM) (spread (snd pair) [])))
                     pairs
           in if truthy nextStartingKey
              then jwks_pages w keyPrefix nextStartingKey pubKeys'
              else Some (Inr pubKeys')))"

definition handleJWKs :: "world \<Rightarrow> string \<Rightarrow> app \<Rightarrow> (error + http_response) option" where
  "handleJWKs w rid a =
     (if \<not> truthy (sig_keyring (app_signals a))
      then Some (Inr \<lparr>requestId = rid, statusCode = 200, headers = JWKS_RESPONSE_HEADERS,
                      body_keys = []\<rparr>)
      else case jwks_pages w (getKeyPrefix (the (sig_keyring (app_signals a)))) None [] of
             None \<Rightarrow> None
           | Some (Inl e) \<Rightarrow> Some (Inl e)
           | Some (Inr pubKeys) \<Rightarrow>
               Some (Inr \<lparr>requestId = rid, statusCode = 200, headers = JWKS_RESPONSE_HEADERS,
                          body_keys = pubKeys\<rparr>))"

section \<open>Names for what the program stores\<close>

text \<open>
  The key under which \<open>generateKeyAndToken\<close> stores the public key, and the entries
  that the program writes.
\<close>

definition newKeyName :: "world \<Rightarrow> AppConfig \<Rightarrow> string" where
  "newKeyName w config =
     getKeyPrefix (case keyring config of None \<Rightarrow> ''default''
                   | Some k \<Rightarrow> if k \<noteq> [] then k else ''default'') @ w_keyId w"

definition key_entry :: "world \<Rightarrow> AppConfig \<Rightarrow> JWK \<Rightarrow> kv_entry" where
  "key_entry w config pub =
     \<lparr>entry_value = VJwk pub,
      entry_ttl = Some ((KEY_GRACE_PERIOD_MINUTES + expirationMinutes config) * 60),
      entry_createdAt = w_now w\<rparr>"

definition token_entry :: "world \<Rightarrow> TokenData \<Rightarrow> kv_entry" where
  "token_entry w td = \<lparr>entry_value = VToken td, entry_ttl = None, entry_createdAt = w_now w\<rparr>"

definition timer_entry :: "world \<Rightarrow> string \<Rightarrow> kv_entry" where
  "timer_entry w tid = \<lparr>entry_value = VTimer tid, entry_ttl = None, entry_createdAt = w_now w\<rparr>"

definition retry_timer :: "string \<Rightarrow> timer" where
  "retry_timer rid =
     \<lparr>timer_id = rid, timer_delay = 300,
      timer_description = ''Key rotation retry after failure (5 minutes)''\<rparr>"

text \<open>
  Reading a decimal numeral back, the inverse of \<open>show_nat\<close>.
\<close>

definition read_nat :: "string \<Rightarrow> nat" where
  "read_nat s = foldl (\<lambda>a c. 10 * a + (of_char c - 48)) 0 s"

section \<open>Sample inputs\<close>

definition example_url :: url where
  "example_url = \<lparr>origin = ''https://oidc.example.com'', hostname = ''oidc.example.com''\<rparr>"

text \<open>A platform on which every call succeeds.\<close>

definition example_world :: world where
  "example_world =
     \<lparr>w_now = 1000, w_keyId = ''kid-1'', w_jti = ''jti-1'',
      w_keyPair = Some ([(''d'', JStr ''private'')], [(''n'', JStr ''public'')]),
      w_url = (\<lambda>s. Some example_url),
      w_sign = (\<lambda>header key payload. Some ''signed.jwt''),
      w_kv_get_ok = True, w_kv_setMany_ok = True, w_timers_set = Some ''timer-1'',
      w_kv_set_ok = True, w_kv_get_timer_ok = True, w_timers_unset_ok = True,
      w_sync_ok = True, w_retry_timers_set = Some ''timer-2'', w_retry_kv_set_ok = True,
      w_kv_list = (\<lambda>keyPrefix startingKey. Some ([], None))\<rparr>"

definition example_config :: "int \<Rightarrow> string option \<Rightarrow> AppConfig" where
  "example_config minutes kr =
     \<lparr>expirationMinutes = minutes, audience = None, additionalClaims = None, keyring = kr\<rparr>"

definition no_signals :: signals where
  "no_signals = \<lparr>sig_token = None, sig_expiresAt = None, sig_issuer = None, sig_keyring = None\<rparr>"

definition example_app :: "AppConfig \<Rightarrow> app" where
  "example_app config =
     \<lparr>app_config = config, app_signals = no_signals, app_url = ''https://oidc.example.com/app''\<rparr>"

definition empty_state :: state where
  "empty_state = \<lparr>kv = Map.empty, timers = [], sync_requests = 0\<rparr>"

text \<open>
  A configuration that tries to override standard claims.
\<close>

definition tampering_config :: AppConfig where
  "tampering_config =
     \<lparr>expirationMinutes = 120, audience = Some ''api.example.com'',
      additionalClaims = Some [(''iss'', JStr ''https://evil.example''), (''role'', JStr ''admin''),
                               (''exp'', JNum 99999999), (''sub'', JStr ''root'')],
      keyring = Some ''default''\<rparr>"

definition example_token :: "int \<Rightarrow> string option \<Rightarrow> TokenData" where
  "example_token m kr = \<lparr>token = ''signed.jwt'', expiresAt = 1000 + m * 60,
          configHash = hashConfig (example_config m kr)\<rparr>"

text \<open>
  The state after a first pass on \<open>example_world\<close> with 120 minutes and the default
  keyring (configured or absent).
\<close>

definition bootstrap_state :: "string option \<Rightarrow> state" where
  "bootstrap_state kr =
     \<lparr>kv = [''key:default:kid-1'' \<mapsto>
               \<lparr>entry_value = VJwk [(''n'', JStr ''public'')], entry_ttl = Some 9000,
                entry_createdAt = 1000\<rparr>,
             ''current_token'' \<mapsto>
               \<lparr>entry_value = VToken \<lparr>token = ''signed.jwt'', expiresAt = 8200,
                                       configHash = hashConfig (example_config 120 kr)\<rparr>,
                entry_ttl = None, entry_createdAt = 1000\<rparr>,
             ''rotation_timer_id'' \<mapsto>
               \<lparr>entry_value = VTimer ''timer-1'', entry_ttl = None, entry_createdAt = 1000\<rparr>],
      timers = [\<lparr>timer_id = ''timer-1'', timer_delay = 3600,
                 timer_description = ''Initial key rotation scheduled for 60 minutes''\<rparr>],
      sync_requests = 0\<rparr>"

text \<open>
  The state after a first pass with keyring \<open>v2\<close> that stored key and token and then
  failed to arm its timer.
\<close>

definition stalled_state :: state where
  "stalled_state =
     \<lparr>kv = [''key:v2:kid-1'' \<mapsto>
               \<lparr>entry_value = VJwk [(''n'', JStr ''public'')], entry_ttl = Some 9000,
                entry_createdAt = 1000\<rparr>,
             ''current_token'' \<mapsto>
               \<lparr>entry_value = VToken \<lparr>token = ''signed.jwt'', expiresAt = 8200,
                                       configHash = hashConfig (example_config 120 (Some ''v2''))\<rparr>,
                entry_ttl = None, entry_createdAt = 1000\<rparr>],
      timers = [], sync_requests = 0\<rparr>"

definition default_updates :: signal_updates where
  "default_updates =
     \<lparr>su_token = ''signed.jwt'', su_expiresAt = 8200, su_issuer = ''https://oidc.example.com'',
      su_keyring = Some ''default''\<rparr>"

section \<open>Unfolding and evaluation\<close>

lemmas io_defs = io_bind_def io_return_def io_throw_def io_catch_def kv_app_get_def
  kv_app_setMany_def kv_app_set_def kv_put_def timers_set_def timers_unset_def lifecycle_sync_def

lemmas program_defs = generateKeyAndToken_def generateToken_def claimsPayload_def createJWT_def
  handleInitialSetup_def handleConfigChange_def onSync_def onSync_body_def
  onTimer_def onTimer_try_def onTimer_catch_def createSignalUpdates_def
  calculateRotationInterval_def as_token_def as_timer_def truthy_def js_or_def
  getKeyPrefix_def CURRENT_TOKEN_KEY_def ROTATION_TIMER_KEY_def KEY_GRACE_PERIOD_MINUTES_def

lemma example_world_fields:
  "w_now example_world = 1000" "w_keyId example_world = ''kid-1''"
  "w_jti example_world = ''jti-1''"
  "w_keyPair example_world = Some ([(''d'', JStr ''private'')], [(''n'', JStr ''public'')])"
  "w_url example_world s = Some example_url"
  "w_sign example_world h k p = Some ''signed.jwt''"
  "w_kv_get_ok example_world" "w_kv_setMany_ok example_world"
  "w_timers_set example_world = Some ''timer-1''" "w_kv_set_ok example_world"
  "w_kv_get_timer_ok example_world" "w_timers_unset_ok example_world"
  "w_sync_ok example_world" "w_retry_timers_set example_world = Some ''timer-2''"
  "w_retry_kv_set_ok example_world"
  by (simp_all add: example_world_def)

lemma example_config_fields:
  "expirationMinutes (example_config m kr) = m" "audience (example_config m kr) = None"
  "additionalClaims (example_config m kr) = None" "keyring (example_config m kr) = kr"
  by (simp_all add: example_config_def)

lemma show_int_60: "show_int 60 = ''60''"
  by code_simp

lemma show_int_120: "show_int 120 = ''120''"
  by code_simp

section \<open>The configuration fingerprint\<close>

lemma hash_step: "push_bit 5 h - h + c = 31 * h + (c::int32)"
  by (simp add: push_bit_eq_mult)

lemma hash_loop_append: "hash_loop h (xs @ ys) = hash_loop (hash_loop h xs) ys"
  by (induction xs arbitrary: h) simp_all

lemma hash_loop_diff: "hash_loop h1 ys - hash_loop h2 ys = 31 ^ length ys * (h1 - h2)"
proof (induction ys arbitrary: h1 h2)
  case Nil
  show ?case by simp
next
  case (Cons c cs)
  have "hash_loop h1 (c # cs) - hash_loop h2 (c # cs) =
        31 ^ length cs * ((31 * h1 + of_nat (of_char c)) - (31 * h2 + of_nat (of_char c)))"
    by (simp add: hash_step Cons.IH)
  also have "\<dots> = 31 ^ length (c # cs) * (h1 - h2)"
    by (simp add: algebra_simps)
  finally show ?case .
qed

lemma odd_mult_zero:
  fixes x y :: int32
  assumes "odd x" "x * y = 0"
  shows "y = 0"
proof -
  have "unat (x * y) = 0" using assms by simp
  then have d: "(2::nat) ^ 32 dvd unat x * unat y"
    by (simp add: unat_word_ariths mod_eq_0_iff_dvd)
  have "odd (unat x)" using assms(1)
    by (simp flip: bit_0 add: bit_unsigned_iff)
  then have "coprime ((2::nat) ^ 32) (unat x)"
    by (meson coprime_left_2_iff_odd coprime_power_left_iff)
  with d have "(2::nat) ^ 32 dvd unat y"
    using coprime_dvd_mult_right_iff by blast
  moreover have "unat y < 2 ^ 32" using unsigned_less [of y] by simp
  ultimately have "unat y = 0"
    using nat_dvd_not_less by blast
  then show ?thesis
    by (simp add: unsigned_eq_0_iff)
qed

lemma of_char_bound: "(of_char x :: nat) < 256"
  using of_char_mod_256 [of x, where ?'a = nat] mod_less_divisor [of 256 "of_char x"]
  by (metis zero_less_numeral)

lemma char_code_inj:
  assumes "(of_nat (of_char x) :: int32) = of_nat (of_char y)"
  shows "x = y"
proof -
  have b: "(of_char x :: nat) < 256" "(of_char y :: nat) < 256"
    by (rule of_char_bound)+
  from assms have "unat (of_nat (of_char x) :: int32) = unat (of_nat (of_char y) :: int32)"
    by simp
  then have "(of_char x :: nat) mod 2 ^ 32 = of_char y mod 2 ^ 32"
    by (simp add: unat_of_nat)
  moreover have "n mod 2 ^ 32 = n" if "n < 256" for n :: nat
  proof -
    have "(256::nat) < 2 ^ 32" by simp
    with that have "n < 2 ^ 32" by (rule order_less_trans)
    then show ?thesis by (rule mod_less)
  qed
  note this [OF b(1)] this [OF b(2)]
  ultimately have "(of_char x :: nat) = of_char y"
    by (simp only:)
  then show ?thesis
    by simp
qed

lemma sint_inj: "sint (a::int32) = sint b \<Longrightarrow> a = b"
  by (metis signed_word_eqI)

lemma hash_loop_single_character:
  assumes "x \<noteq> y"
  shows "hash_loop h (pre @ x # post) \<noteq> hash_loop h (pre @ y # post)"
proof
  assume eq: "hash_loop h (pre @ x # post) = hash_loop h (pre @ y # post)"
  let ?g = "hash_loop h pre"
  let ?a = "31 * ?g + of_nat (of_char x) :: int32"
  let ?b = "31 * ?g + of_nat (of_char y) :: int32"
  from eq have "hash_loop ?a post - hash_loop ?b post = 0"
    by (simp add: hash_loop_append hash_step)
  then have "31 ^ length post * (?a - ?b) = 0"
    by (simp only: hash_loop_diff)
  moreover have "odd ((31::int32) ^ length post)" by simp
  ultimately have "?a - ?b = 0" by (rule odd_mult_zero [rotated])
  then have "(of_nat (of_char x) :: int32) = of_nat (of_char y)" by simp
  with char_code_inj assms show False by blast
qed

lemma read_show_nat: "read_nat (show_nat n) = n"
  unfolding read_nat_def
proof (induction n rule: show_nat.induct)
  case (1 n)
  show ?case
  proof (cases "n < 10")
    case True
    then show ?thesis by (subst show_nat.simps) (simp add: digit_char_def)
  next
    case False
    then show ?thesis using 1
      by (subst show_nat.simps) (simp add: digit_char_def)
  qed
qed

lemma show_nat_inj: "show_nat m = show_nat n \<Longrightarrow> m = n"
  by (metis read_show_nat)

lemma digit_char_not_minus: "d < 10 \<Longrightarrow> digit_char d \<noteq> CHR ''-''"
proof
  assume d: "d < 10" and "digit_char d = CHR ''-''"
  then have "(of_char (digit_char d) :: nat) = of_char (CHR ''-'')" by simp
  with d show False by (simp add: digit_char_def)
qed

lemma hd_show_nat: "hd (show_nat n) \<noteq> CHR ''-''"
proof (induction n rule: show_nat.induct)
  case (1 n)
  show ?case
  proof (cases "n < 10")
    case True
    then show ?thesis by (subst show_nat.simps) (simp add: digit_char_not_minus)
  next
    case False
    have "show_nat (n div 10) \<noteq> []" by (subst show_nat.simps) simp
    with False 1 show ?thesis
      by (subst show_nat.simps) simp
  qed
qed

lemma show_int_inj:
  assumes "show_int i = show_int j"
  shows "i = j"
proof -
  have neg: "hd (show_int k) = CHR ''-'' \<longleftrightarrow> k < 0" for k
    using hd_show_nat [of "nat k"] by (simp add: show_int_def)
  from assms neg [of i] neg [of j] have s: "i < 0 \<longleftrightarrow> j < 0" by simp
  show ?thesis
  proof (cases "i < 0")
    case True
    with s assms have "show_nat (nat (- i)) = show_nat (nat (- j))" by (simp add: show_int_def)
    then have "nat (- i) = nat (- j)" by (rule show_nat_inj)
    with True s show ?thesis by simp
  next
    case False
    with s assms have "show_nat (nat i) = show_nat (nat j)" by (simp add: show_int_def)
    then have "nat i = nat j" by (rule show_nat_inj)
    with False s show ?thesis by simp
  qed
qed

lemma hashConfig_eq_iff:
  "hashConfig c1 = hashConfig c2 \<longleftrightarrow>
     hash_loop 0 (configStr c1) = hash_loop 0 (configStr c2)"
  by (auto simp: hashConfig_def dest: show_int_inj sint_inj)

text \<open>
  The fingerprint tells apart two configurations whose serialisations differ in exactly
  one character: the rolling hash multiplies by the odd number 31, which is invertible
  modulo \<open>2 ^ 32\<close>.
\<close>

lemma hashConfig_single_character:
  assumes "configStr c1 = pre @ x # post" "configStr c2 = pre @ y # post" "x \<noteq> y"
  shows "hashConfig c1 \<noteq> hashConfig c2"
  using hash_loop_single_character [OF assms(3), of 0 pre post] assms(1,2)
  by (simp add: hashConfig_eq_iff)

lemma hash_Aa_BB: "hash_loop h ''Aa'' = hash_loop h ''BB''"
  by (simp add: hash_step)

lemma quote_names:
  "quote_string ''expirationMinutes'' = ''\"expirationMinutes\"''"
  "quote_string ''keyring'' = ''\"keyring\"''"
  by (simp_all add: quote_string_def quote_char_def)

lemma quote_two: "quote_string [a, b] = CHR 0x22 # quote_char a @ quote_char b @ [CHR 0x22]"
  by (simp add: quote_string_def)

lemma configStr_keyring:
  "configStr (example_config 120 (Some [a, b])) =
     ''{\"expirationMinutes\":120,\"keyring\":\"'' @ quote_char a @ quote_char b @ ''\"}''"
  by (simp add: configStr_def example_config_def show_int_120 quote_names quote_two)

lemma hashConfig_v1_v2:
  "hashConfig (example_config 120 (Some ''v1'')) \<noteq> hashConfig (example_config 120 (Some ''v2''))"
proof -
  have 1: "configStr (example_config 120 (Some ''v1'')) =
      ''{\"expirationMinutes\":120,\"keyring\":\"v'' @ CHR ''1'' # ''\"}''"
    and 2: "configStr (example_config 120 (Some ''v2'')) =
      ''{\"expirationMinutes\":120,\"keyring\":\"v'' @ CHR ''2'' # ''\"}''"
    by (simp_all add: configStr_keyring quote_char_def)
  have 3: "CHR ''1'' \<noteq> CHR ''2''" by simp
  from hashConfig_single_character [OF 1 2 3] show ?thesis .
qed

text \<open>
  Claim C1. The claim is that two configurations that differ in one of the four fields
  never have the same fingerprint. The 32-bit rolling hash of \<open>hashConfig\<close> does not
  keep that: the configurations with 120 minutes and the keyrings \<open>Aa\<close> and \<open>BB\<close>
  differ in their keyring and have the same fingerprint.
\<close>

theorem hashConfig_collision:
  "keyring (example_config 120 (Some ''Aa'')) \<noteq> keyring (example_config 120 (Some ''BB''))
   \<and> hashConfig (example_config 120 (Some ''Aa'')) = hashConfig (example_config 120 (Some ''BB''))"
proof -
  let ?pre = "''{\"expirationMinutes\":120,\"keyring\":\"''"
  have 1: "configStr (example_config 120 (Some ''Aa'')) = ?pre @ ''Aa'' @ ''\"}''"
    and 2: "configStr (example_config 120 (Some ''BB'')) = ?pre @ ''BB'' @ ''\"}''"
    by (simp_all add: configStr_keyring quote_char_def)
  have "hash_loop 0 (?pre @ ''Aa'' @ ''\"}'') = hash_loop 0 (?pre @ ''BB'' @ ''\"}'')"
    by (simp only: hash_loop_append hash_Aa_BB)
  then show ?thesis
    by (simp only: hashConfig_def 1 2) (simp add: example_config_def)
qed

section \<open>The claims of a token\<close>

lemma generateToken_Inr:
  assumes "generateToken w config appUrl kid pk = Inr td"
  shows "\<exists>u p. w_url w appUrl = Some u
           \<and> claimsPayload w config appUrl (w_now w) (w_now w + expirationMinutes config * 60) = Inr p
           \<and> createJWT w kid pk p = Some (token td)
           \<and> expiresAt td = w_now w + expirationMinutes config * 60
           \<and> configHash td = hashConfig config"
  using assms
  by (auto simp: generateToken_def claimsPayload_def Let_def split: option.splits sum.splits)

lemma claimsPayload_lookup:
  assumes "claimsPayload w config appUrl now expires = Inr p"
  shows "\<exists>u. w_url w appUrl = Some u
           \<and> map_of p ''jti'' = Some (JStr (w_jti w))
           \<and> map_of p ''iss'' = Some (JStr (origin u))
           \<and> map_of p ''sub'' = Some (JStr ''flows'')
           \<and> map_of p ''aud'' = Some (JStr (case audience config of
                                              None \<Rightarrow> hostname u
                                            | Some a \<Rightarrow> if a \<noteq> [] then a else hostname u))
           \<and> map_of p ''exp'' = Some (JNum expires)
           \<and> map_of p ''iat'' = Some (JNum now)
           \<and> map_of p ''nbf'' = Some (JNum now)"
  using assms
  by (auto simp: claimsPayload_def update_conv' split: option.splits)

text \<open>
  Claim C5. Whatever the additional claims of the configuration hold, also under the names
  \<open>jti\<close>, \<open>iss\<close>, \<open>sub\<close>, \<open>aud\<close>, \<open>exp\<close>, \<open>iat\<close> and \<open>nbf\<close>, the payload that
  \<open>generateToken\<close> signs carries the standard value under each of these names.
\<close>

theorem standard_claims_override:
  assumes "generateToken w config appUrl kid pk = Inr td"
  shows "\<exists>u p. w_url w appUrl = Some u
           \<and> claimsPayload w config appUrl (w_now w) (expiresAt td) = Inr p
           \<and> createJWT w kid pk p = Some (token td)
           \<and> map_of p ''jti'' = Some (JStr (w_jti w))
           \<and> map_of p ''iss'' = Some (JStr (origin u))
           \<and> map_of p ''sub'' = Some (JStr ''flows'')
           \<and> map_of p ''aud'' = Some (JStr (case audience config of
                                              None \<Rightarrow> hostname u
                                            | Some a \<Rightarrow> if a \<noteq> [] then a else hostname u))
           \<and> map_of p ''exp'' = Some (JNum (expiresAt td))
           \<and> map_of p ''iat'' = Some (JNum (w_now w))
           \<and> map_of p ''nbf'' = Some (JNum (w_now w))"
proof -
  from generateToken_Inr [OF assms] obtain u p where
    u: "w_url w appUrl = Some u"
    and p: "claimsPayload w config appUrl (w_now w) (w_now w + expirationMinutes config * 60) = Inr p"
    and j: "createJWT w kid pk p = Some (token td)"
    and e: "expiresAt td = w_now w + expirationMinutes config * 60"
    by blast
  from claimsPayload_lookup [OF p] u e p j show ?thesis
    by (auto split: option.splits if_splits)
qed

theorem standard_claims_override_witness:
  "generateToken example_world tampering_config ''https://oidc.example.com/app'' ''kid-1'' [] =
     Inr \<lparr>token = ''signed.jwt'', expiresAt = 8200, configHash = hashConfig tampering_config\<rparr>
   \<and> (\<exists>p. claimsPayload example_world tampering_config ''https://oidc.example.com/app'' 1000 8200 = Inr p
        \<and> map_of p ''iss'' = Some (JStr ''https://oidc.example.com'')
        \<and> map_of p ''sub'' = Some (JStr ''flows'')
        \<and> map_of p ''exp'' = Some (JNum 8200)
        \<and> map_of p ''role'' = Some (JStr ''admin''))"
proof -
  have g: "generateToken example_world tampering_config ''https://oidc.example.com/app'' ''kid-1'' [] =
     Inr \<lparr>token = ''signed.jwt'', expiresAt = 8200, configHash = hashConfig tampering_config\<rparr>"
    by (simp add: generateToken_def claimsPayload_def createJWT_def example_world_def
        tampering_config_def)
  have r: "\<And>p. claimsPayload example_world tampering_config ''https://oidc.example.com/app'' 1000 8200 = Inr p
       \<Longrightarrow> map_of p ''role'' = Some (JStr ''admin'')"
    by (auto simp: claimsPayload_def example_world_def tampering_config_def spread_def update_conv')
  from standard_claims_override [OF g] r g show ?thesis
    by (auto simp: example_world_def example_url_def)
qed

text \<open>
  Claim C9. The \<open>aud\<close> claim of the signed payload is the configured audience when one
  is set, and the host name of the app URL otherwise. The source writes
  \<open>config.audience || hostname\<close>, so an audience that is the empty string counts as not set.
\<close>

theorem audience_claim:
  assumes "generateToken w config appUrl kid pk = Inr td"
  shows "\<exists>u p. w_url w appUrl = Some u
           \<and> claimsPayload w config appUrl (w_now w) (expiresAt td) = Inr p
           \<and> createJWT w kid pk p = Some (token td)
           \<and> (case audience config of
                 None \<Rightarrow> map_of p ''aud'' = Some (JStr (hostname u))
               | Some a \<Rightarrow> map_of p ''aud'' = Some (JStr (if a = [] then hostname u else a)))"
proof -
  from generateToken_Inr [OF assms] obtain u p where
    u: "w_url w appUrl = Some u"
    and p: "claimsPayload w config appUrl (w_now w) (w_now w + expirationMinutes config * 60) = Inr p"
    and j: "createJWT w kid pk p = Some (token td)"
    and e: "expiresAt td = w_now w + expirationMinutes config * 60"
    by blast
  from claimsPayload_lookup [OF p] u e p j show ?thesis
    by (auto split: option.splits if_splits)
qed

theorem audience_claim_witness:
  "generateToken example_world tampering_config ''https://oidc.example.com/app'' ''kid-1'' [] =
     Inr \<lparr>token = ''signed.jwt'', expiresAt = 8200, configHash = hashConfig tampering_config\<rparr>
   \<and> (\<exists>p. claimsPayload example_world tampering_config ''https://oidc.example.com/app'' 1000 8200 = Inr p
        \<and> createJWT example_world ''kid-1'' [] p = Some ''signed.jwt''
        \<and> map_of p ''aud'' = Some (JStr ''api.example.com''))
   \<and> generateToken example_world (example_config 120 None) ''https://oidc.example.com/app''
        ''kid-1'' [] =
     Inr \<lparr>token = ''signed.jwt'', expiresAt = 8200,
          configHash = hashConfig (example_config 120 None)\<rparr>
   \<and> (\<exists>p. claimsPayload example_world (example_config 120 None) ''https://oidc.example.com/app''
              1000 8200 = Inr p
        \<and> createJWT example_world ''kid-1'' [] p = Some ''signed.jwt''
        \<and> map_of p ''aud'' = Some (JStr ''oidc.example.com''))"
proof -
  have g1: "generateToken example_world tampering_config ''https://oidc.example.com/app'' ''kid-1'' [] =
     Inr \<lparr>token = ''signed.jwt'', expiresAt = 8200, configHash = hashConfig tampering_config\<rparr>"
    by (simp add: generateToken_def claimsPayload_def createJWT_def example_world_def
        tampering_config_def)
  have g2: "generateToken example_world (example_config 120 None) ''https://oidc.example.com/app''
        ''kid-1'' [] =
     Inr \<lparr>token = ''signed.jwt'', expiresAt = 8200,
          configHash = hashConfig (example_config 120 None)\<rparr>"
    by (simp add: generateToken_def claimsPayload_def createJWT_def example_world_def)
      (simp add: example_config_def)
  have p1: "\<exists>p. claimsPayload example_world tampering_config ''https://oidc.example.com/app'' 1000 8200 = Inr p
        \<and> createJWT example_world ''kid-1'' [] p = Some ''signed.jwt''
        \<and> map_of p ''aud'' = Some (JStr ''api.example.com'')"
    using audience_claim [OF g1]
    by (auto simp: example_world_fields example_url_def tampering_config_def)
  have p2: "\<exists>p. claimsPayload example_world (example_config 120 None) ''https://oidc.example.com/app''
              1000 8200 = Inr p
        \<and> createJWT example_world ''kid-1'' [] p = Some ''signed.jwt''
        \<and> map_of p ''aud'' = Some (JStr ''oidc.example.com'')"
    using audience_claim [OF g2]
    by (auto simp: example_world_fields example_url_def example_config_fields)
  from g1 p1 g2 p2 show ?thesis by (intro conjI)
qed

section \<open>Key records\<close>

lemma key_name_neq_token: "getKeyPrefix kr @ kid \<noteq> CURRENT_TOKEN_KEY"
  by (simp add: getKeyPrefix_def CURRENT_TOKEN_KEY_def)

lemma key_name_neq_timer: "getKeyPrefix kr @ kid \<noteq> ROTATION_TIMER_KEY"
  by (simp add: getKeyPrefix_def ROTATION_TIMER_KEY_def)

lemma newKeyName_neq [simp]:
  "newKeyName w config \<noteq> CURRENT_TOKEN_KEY" "newKeyName w config \<noteq> ROTATION_TIMER_KEY"
  "CURRENT_TOKEN_KEY \<noteq> newKeyName w config" "ROTATION_TIMER_KEY \<noteq> newKeyName w config"
  using key_name_neq_token key_name_neq_timer by (auto simp: newKeyName_def dest: sym)

lemma token_neq_timer [simp]:
  "CURRENT_TOKEN_KEY \<noteq> ROTATION_TIMER_KEY" "ROTATION_TIMER_KEY \<noteq> CURRENT_TOKEN_KEY"
  by (simp_all add: CURRENT_TOKEN_KEY_def ROTATION_TIMER_KEY_def)

lemma generateKeyAndToken_Inr:
  assumes "generateKeyAndToken w config appUrl st = (Inr td, st')"
  shows "\<exists>priv pub. w_keyPair w = Some (priv, pub)
           \<and> generateToken w config appUrl (w_keyId w) priv = Inr td
           \<and> w_kv_setMany_ok w
           \<and> st' = st\<lparr>kv := (kv st)(newKeyName w config \<mapsto> key_entry w config pub,
                                     CURRENT_TOKEN_KEY \<mapsto> token_entry w td)\<rparr>"
  using assms
  by (auto simp: generateKeyAndToken_def newKeyName_def io_bind_def io_return_def
        kv_app_setMany_def kv_put_def Let_def key_entry_def token_entry_def
        split: option.splits sum.splits if_splits prod.splits)

lemma generateKeyAndToken_Inl:
  assumes "generateKeyAndToken w config appUrl st = (Inl e, st')"
  shows "st' = st"
  using assms
  by (auto simp: generateKeyAndToken_def io_bind_def io_return_def
        kv_app_setMany_def Let_def
        split: option.splits sum.splits if_splits prod.splits)

text \<open>
  Claim C6. The key record that \<open>generateKeyAndToken\<close> stores expires
  \<open>1800 + expirationMinutes * 60\<close> seconds after its creation: the grace period of 30
  minutes plus the lifetime of a token under the configuration of that moment.
\<close>

theorem key_ttl_invariant:
  assumes "generateKeyAndToken w config appUrl st = (Inr td, st')"
  shows "\<exists>e pub x. kv st' (newKeyName w config) = Some e
           \<and> entry_value e = VJwk pub
           \<and> entry_expiresAt e = Some x
           \<and> x - entry_createdAt e = 1800 + expirationMinutes config * 60
           \<and> KEY_GRACE_PERIOD_MINUTES * 60 = 1800"
  using generateKeyAndToken_Inr [OF assms]
  by (auto simp: key_entry_def entry_expiresAt_def KEY_GRACE_PERIOD_MINUTES_def)

lemma example_generateToken:
  "generateToken example_world (example_config m kr) url kid pk =
     Inr \<lparr>token = ''signed.jwt'', expiresAt = 1000 + m * 60,
          configHash = hashConfig (example_config m kr)\<rparr>"
  by (simp add: generateToken_def claimsPayload_def createJWT_def example_world_def
        example_config_def)

lemma example_generateKeyAndToken:
  "generateKeyAndToken example_world (example_config m None) url empty_state =
     (Inr (example_token m None),
      \<lparr>kv = [''key:default:kid-1'' \<mapsto>
                \<lparr>entry_value = VJwk [(''n'', JStr ''public'')],
                 entry_ttl = Some ((30 + m) * 60), entry_createdAt = 1000\<rparr>,
              ''current_token'' \<mapsto>
                \<lparr>entry_value = VToken (example_token m None),
                 entry_ttl = None, entry_createdAt = 1000\<rparr>],
       timers = [], sync_requests = 0\<rparr>)"
  by (simp add: generateKeyAndToken_def example_generateToken example_world_fields
      empty_state_def io_bind_def io_return_def kv_app_setMany_def kv_put_def getKeyPrefix_def
      CURRENT_TOKEN_KEY_def KEY_GRACE_PERIOD_MINUTES_def example_token_def)
    (simp add: example_config_def)

theorem key_ttl_invariant_witness:
  "\<exists>e. kv (snd (generateKeyAndToken example_world (example_config 120 None)
                  ''https://oidc.example.com/app'' empty_state)) ''key:default:kid-1'' = Some e
      \<and> entry_createdAt e = 1000 \<and> entry_expiresAt e = Some 10000"
proof -
  note g = example_generateKeyAndToken [of 120 "''https://oidc.example.com/app''"]
  show ?thesis
    unfolding g using key_ttl_invariant [OF g]
    by (auto simp: newKeyName_def getKeyPrefix_def example_world_fields example_config_def
        entry_expiresAt_def)
qed

section \<open>Rotation interval\<close>

text \<open>
  Claim C8. For every value \<open>x\<close> of \<open>expirationMinutes\<close>, \<open>calculateRotationInterval\<close>
  returns the larger of 5 and the floor of \<open>x / 2\<close>; it returns 30 for 60, 5 for 10, 60 for
  120 and 5 for 11.
\<close>

theorem calculateRotationInterval_spec:
  "calculateRotationInterval x = max 5 \<lfloor>real_of_int x / 2\<rfloor>
   \<and> calculateRotationInterval 60 = 30
   \<and> calculateRotationInterval 10 = 5
   \<and> calculateRotationInterval 120 = 60
   \<and> calculateRotationInterval 11 = 5"
proof -
  have "\<lfloor>real_of_int x / 2\<rfloor> = x div 2"
    using floor_divide_of_int_eq [of x 2] by simp
  then show ?thesis
    by (simp add: calculateRotationInterval_def)
qed

section \<open>Validation of the expiration time\<close>

text \<open>
  Claim C7. With \<open>expirationMinutes\<close> below 10, \<open>onSync\<close> ends failed with the diagnostic
  and does nothing else: the store, the timers and the sync requests are what they were,
  and no signal is updated. From 10 on the validation lets the pass through: the pass
  does not end with that diagnostic.
\<close>

theorem onSync_validation:
  "(expirationMinutes (app_config a) < 10 \<longrightarrow>
      onSync w a st = (Failed ''Token expiration time must be at least 10 minutes'', st))
   \<and> (10 \<le> expirationMinutes (app_config a) \<longrightarrow>
      fst (onSync w a st) \<noteq> Failed ''Token expiration time must be at least 10 minutes'')"
  by (auto simp: onSync_def split: prod.splits sum.splits)

theorem onSync_validation_witness:
  "onSync example_world (example_app (example_config 9 None)) empty_state =
     (Failed ''Token expiration time must be at least 10 minutes'', empty_state)
   \<and> fst (onSync example_world (example_app (example_config 10 None)) empty_state) \<noteq>
       Failed ''Token expiration time must be at least 10 minutes''"
  using onSync_validation [of "example_app (example_config 9 None)" example_world empty_state]
    onSync_validation [of "example_app (example_config 10 None)" example_world empty_state]
  by (simp add: example_app_def example_config_def)

section \<open>The key set without a published keyring\<close>

text \<open>
  Claim C3. When no keyring signal has been published, \<open>handleJWKs\<close> answers with status
  200 and an empty key set, whatever the store holds: it returns no error and lists no key,
  of the default keyring or of any other.
\<close>

theorem handleJWKs_no_signal:
  "sig_keyring (app_signals a) = None \<Longrightarrow>
   handleJWKs w rid a =
     Some (Inr \<lparr>requestId = rid, statusCode = 200, headers = JWKS_RESPONSE_HEADERS,
                body_keys = []\<rparr>)"
  by (simp add: handleJWKs_def truthy_def)

theorem handleJWKs_no_signal_witness:
  "handleJWKs example_world ''req-1'' (example_app (example_config 120 None)) =
     Some (Inr \<lparr>requestId = ''req-1'', statusCode = 200,
                headers = [(''Content-Type'', ''application/json; charset=utf-8''),
                           (''Cache-Control'', ''no-cache'')],
                body_keys = []\<rparr>)"
  using handleJWKs_no_signal [of "example_app (example_config 120 None)" example_world "''req-1''"]
  by (simp add: example_app_def no_signals_def JWKS_RESPONSE_HEADERS_def)

section \<open>Reconciliation\<close>

lemma io_bind_Inr:
  assumes "io_bind m f st = (Inr y, st')"
  obtains x st1 where "m st = (Inr x, st1)" "f x st1 = (Inr y, st')"
  using assms by (auto simp: io_bind_def split: prod.splits sum.splits)

lemma kv_app_set_Inr:
  assumes "kv_app_set ok now key v st = (Inr x, st')"
  shows "ok \<and> st' = st\<lparr>kv := (kv st)(key \<mapsto> \<lparr>entry_value = v, entry_ttl = None, entry_createdAt = now\<rparr>)\<rparr>"
  using assms by (auto simp: kv_app_set_def kv_put_def split: if_splits)

lemma timers_set_Inr:
  assumes "timers_set res delay d st = (Inr tid, st')"
  shows "res = Some tid \<and> st' = st\<lparr>timers := timers st @
                 [\<lparr>timer_id = tid, timer_delay = delay, timer_description = d\<rparr>]\<rparr>"
  using assms by (auto simp: timers_set_def split: option.splits)

lemma timers_unset_kv:
  assumes "timers_unset ok tid st = (r, st')"
  shows "kv st' = kv st"
  using assms by (auto simp: timers_unset_def split: if_splits)

lemma kv_app_get_Inr:
  assumes "kv_app_get ok key st = (Inr v, st')"
  shows "ok \<and> st' = st \<and> v = map_option entry_value (kv st key)"
  using assms by (auto simp: kv_app_get_def split: if_splits)

lemma handleInitialSetup_Inr:
  assumes "handleInitialSetup w config appUrl ck st = (Inr (td, kr), st')"
  shows "\<exists>priv pub tid. w_keyPair w = Some (priv, pub)
           \<and> generateToken w config appUrl (w_keyId w) priv = Inr td
           \<and> w_timers_set w = Some tid
           \<and> kr = ck
           \<and> st' = st\<lparr>kv := (kv st)(newKeyName w config \<mapsto> key_entry w config pub,
                                     CURRENT_TOKEN_KEY \<mapsto> token_entry w td,
                                     ROTATION_TIMER_KEY \<mapsto> timer_entry w tid),
                       timers := timers st @
                         [\<lparr>timer_id = tid,
                           timer_delay = calculateRotationInterval (expirationMinutes config) * 60,
                           timer_description = ''Initial key rotation scheduled for ''
                             @ show_int (calculateRotationInterval (expirationMinutes config))
                             @ '' minutes''\<rparr>]\<rparr>"
proof -
  from assms obtain td1 st1 where
    g: "generateKeyAndToken w config appUrl st = (Inr td1, st1)"
    and r1: "io_bind
            (timers_set (w_timers_set w) (calculateRotationInterval (expirationMinutes config) * 60)
               (''Initial key rotation scheduled for ''
                  @ show_int (calculateRotationInterval (expirationMinutes config)) @ '' minutes''))
            (\<lambda>timerId.
               io_bind (kv_app_set (w_kv_set_ok w) (w_now w) ROTATION_TIMER_KEY (VTimer timerId))
                 (\<lambda>_. io_return (td1, ck))) st1 = (Inr (td, kr), st')"
    unfolding handleInitialSetup_def Let_def by (rule io_bind_Inr)
  from r1 obtain tid st2 where
    t: "timers_set (w_timers_set w) (calculateRotationInterval (expirationMinutes config) * 60)
               (''Initial key rotation scheduled for ''
                  @ show_int (calculateRotationInterval (expirationMinutes config)) @ '' minutes'') st1
          = (Inr tid, st2)"
    and r2: "io_bind (kv_app_set (w_kv_set_ok w) (w_now w) ROTATION_TIMER_KEY (VTimer tid))
                 (\<lambda>_. io_return (td1, ck)) st2 = (Inr (td, kr), st')"
    by (rule io_bind_Inr)
  from r2 obtain x st3 where
    s: "kv_app_set (w_kv_set_ok w) (w_now w) ROTATION_TIMER_KEY (VTimer tid) st2 = (Inr x, st3)"
    and r3: "io_return (td1, ck) st3 = (Inr (td, kr), st')"
    by (rule io_bind_Inr)
  from r3 have e: "td1 = td" "kr = ck" "st' = st3" by (simp_all add: io_return_def)
  from generateKeyAndToken_Inr [OF g] timers_set_Inr [OF t] kv_app_set_Inr [OF s] e
  show ?thesis by (auto simp: timer_entry_def)
qed

lemma handleConfigChange_Inr:
  assumes "handleConfigChange w config appUrl ck st = (Inr (td, kr), st')"
  shows "\<exists>priv pub tid. w_keyPair w = Some (priv, pub)
           \<and> generateToken w config appUrl (w_keyId w) priv = Inr td
           \<and> w_timers_set w = Some tid
           \<and> kr = ck
           \<and> kv st' = (kv st)(newKeyName w config \<mapsto> key_entry w config pub,
                              CURRENT_TOKEN_KEY \<mapsto> token_entry w td,
                              ROTATION_TIMER_KEY \<mapsto> timer_entry w tid)"
proof -
  let ?n = "calculateRotationInterval (expirationMinutes config)"
  let ?d = "''Key rotation rescheduled after config change ('' @ show_int ?n @ '' minutes)''"
  from assms obtain td1 st1 where
    g: "generateKeyAndToken w config appUrl st = (Inr td1, st1)"
    and r1: "io_bind (kv_app_get (w_kv_get_timer_ok w) ROTATION_TIMER_KEY) (\<lambda>existing.
     io_bind (if truthy (as_timer existing)
              then timers_unset (w_timers_unset_ok w) (the (as_timer existing))
              else io_return ()) (\<lambda>_.
        io_bind (timers_set (w_timers_set w) (?n * 60) ?d)
            (\<lambda>newTimerId.
               io_bind (kv_app_set (w_kv_set_ok w) (w_now w) ROTATION_TIMER_KEY (VTimer newTimerId))
                 (\<lambda>_. io_return (td1, ck))))) st1 = (Inr (td, kr), st')"
    unfolding handleConfigChange_def Let_def by (rule io_bind_Inr)
  from r1 obtain existing st2 where
    k: "kv_app_get (w_kv_get_timer_ok w) ROTATION_TIMER_KEY st1 = (Inr existing, st2)"
    and r2: "io_bind (if truthy (as_timer existing)
              then timers_unset (w_timers_unset_ok w) (the (as_timer existing))
              else io_return ()) (\<lambda>_.
        io_bind (timers_set (w_timers_set w) (?n * 60) ?d)
            (\<lambda>newTimerId.
               io_bind (kv_app_set (w_kv_set_ok w) (w_now w) ROTATION_TIMER_KEY (VTimer newTimerId))
                 (\<lambda>_. io_return (td1, ck)))) st2 = (Inr (td, kr), st')"
    by (rule io_bind_Inr)
  from r2 obtain x3 st3 where
    u: "(if truthy (as_timer existing)
              then timers_unset (w_timers_unset_ok w) (the (as_timer existing))
              else io_return ()) st2 = (Inr x3, st3)"
    and r3: "io_bind (timers_set (w_timers_set w) (?n * 60) ?d)
            (\<lambda>newTimerId.
               io_bind (kv_app_set (w_kv_set_ok w) (w_now w) ROTATION_TIMER_KEY (VTimer newTimerId))
                 (\<lambda>_. io_return (td1, ck))) st3 = (Inr (td, kr), st')"
    by (rule io_bind_Inr)
  from r3 obtain tid st4 where
    t: "timers_set (w_timers_set w) (?n * 60) ?d st3 = (Inr tid, st4)"
    and r4: "io_bind (kv_app_set (w_kv_set_ok w) (w_now w) ROTATION_TIMER_KEY (VTimer tid))
                 (\<lambda>_. io_return (td1, ck)) st4 = (Inr (td, kr), st')"
    by (rule io_bind_Inr)
  from r4 obtain x st5 where
    s: "kv_app_set (w_kv_set_ok w) (w_now w) ROTATION_TIMER_KEY (VTimer tid) st4 = (Inr x, st5)"
    and r5: "io_return (td1, ck) st5 = (Inr (td, kr), st')"
    by (rule io_bind_Inr)
  from r5 have e: "td1 = td" "kr = ck" "st' = st5" by (simp_all add: io_return_def)
  have k3: "kv st3 = kv st2"
    using u timers_unset_kv by (auto simp: io_return_def split: if_splits)
  from kv_app_get_Inr [OF k] have k2: "st2 = st1" by simp
  from generateKeyAndToken_Inr [OF g] timers_set_Inr [OF t] kv_app_set_Inr [OF s] e k3 k2
  show ?thesis by (auto simp: timer_entry_def)
qed

text \<open>
  The three ways in which a pass ends ready.
\<close>

lemma onSync_Ready_cases:
  assumes "onSync w a st = (Ready u, st')"
  obtains
    (initial) td ur where
      "as_token (map_option entry_value (kv st CURRENT_TOKEN_KEY)) = None"
      "handleInitialSetup w (app_config a) (app_url a) (keyring (app_config a)) st
         = (Inr (td, keyring (app_config a)), st')"
      "w_url w (app_url a) = Some ur"
      "u = createSignalUpdates ur td (keyring (app_config a))"
  | (change) t td ur where
      "as_token (map_option entry_value (kv st CURRENT_TOKEN_KEY)) = Some t"
      "configHash t \<noteq> hashConfig (app_config a)"
      "handleConfigChange w (app_config a) (app_url a) (keyring (app_config a)) st
         = (Inr (td, keyring (app_config a)), st')"
      "w_url w (app_url a) = Some ur"
      "u = createSignalUpdates ur td (keyring (app_config a))"
  | (reuse) t ur where
      "as_token (map_option entry_value (kv st CURRENT_TOKEN_KEY)) = Some t"
      "configHash t = hashConfig (app_config a)"
      "st' = st"
      "w_url w (app_url a) = Some ur"
      "u = createSignalUpdates ur t (js_or (sig_keyring (app_signals a)) (keyring (app_config a)))"
proof -
  from assms have b: "onSync_body w a st = (Inr u, st')"
    by (auto simp: onSync_def split: if_splits prod.splits sum.splits)
  let ?c = "app_config a"
  let ?h = "\<lambda>cur. case as_token cur of
              None \<Rightarrow> handleInitialSetup w ?c (app_url a) (keyring ?c)
            | Some t \<Rightarrow>
                if configHash t \<noteq> hashConfig ?c
                then handleConfigChange w ?c (app_url a) (keyring ?c)
                else io_return (t, js_or (sig_keyring (app_signals a)) (keyring ?c))"
  let ?f = "\<lambda>(tokenData, activeKeyring).
              (case w_url w (app_url a) of
                 None \<Rightarrow> io_throw UrlError
               | Some u \<Rightarrow> io_return (createSignalUpdates u tokenData activeKeyring))"
  from b obtain cur st1 where
    k: "kv_app_get (w_kv_get_ok w) CURRENT_TOKEN_KEY st = (Inr cur, st1)"
    and r1: "io_bind (?h cur) ?f st1 = (Inr u, st')"
    unfolding onSync_body_def Let_def by (rule io_bind_Inr)
  from r1 obtain p st2 where h: "?h cur st1 = (Inr p, st2)" and r2: "?f p st2 = (Inr u, st')"
    by (rule io_bind_Inr)
  obtain td kr where p: "p = (td, kr)" by (cases p)
  from r2 p obtain ur where ur: "w_url w (app_url a) = Some ur"
    and u: "u = createSignalUpdates ur td kr" and st': "st' = st2"
    by (auto simp: io_throw_def io_return_def split: option.splits)
  from kv_app_get_Inr [OF k]
  have c: "st1 = st" "cur = map_option entry_value (kv st CURRENT_TOKEN_KEY)"
    by simp_all
  show ?thesis
  proof (cases "as_token cur")
    case None
    with h p have i: "handleInitialSetup w ?c (app_url a) (keyring ?c) st1 = (Inr (td, kr), st2)"
      by simp
    from handleInitialSetup_Inr [OF i] have "kr = keyring ?c" by blast
    with None i ur u st' c show ?thesis by (auto intro: initial)
  next
    case (Some t)
    show ?thesis
    proof (cases "configHash t \<noteq> hashConfig ?c")
      case True
      with h p Some
      have i: "handleConfigChange w ?c (app_url a) (keyring ?c) st1 = (Inr (td, kr), st2)"
        by simp
      from handleConfigChange_Inr [OF i] have "kr = keyring ?c" by blast
      with Some True i ur u st' c show ?thesis by (auto intro: change)
    next
      case False
      with h p Some
      have "td = t" "kr = js_or (sig_keyring (app_signals a)) (keyring ?c)" "st2 = st1"
        by (simp_all add: io_return_def)
      with Some False ur u st' c show ?thesis by (auto intro: reuse)
    qed
  qed
qed

lemma onSync_Ready_minutes:
  assumes "onSync w a st = (Ready u, st')"
  shows "10 \<le> expirationMinutes (app_config a)"
  using assms by (auto simp: onSync_def split: if_splits)

text \<open>
  What a pass that ends ready leaves behind.
\<close>

lemma onSync_Ready:
  assumes "onSync w a st = (Ready u, st')"
  shows "\<exists>td e. kv st' CURRENT_TOKEN_KEY = Some e \<and> entry_value e = VToken td
                \<and> configHash td = hashConfig (app_config a)
                \<and> su_token u = token td \<and> su_expiresAt u = expiresAt td
                \<and> js_or (su_keyring u) (keyring (app_config a)) = su_keyring u"
  using assms
proof (cases rule: onSync_Ready_cases)
  case (initial td ur)
  from handleInitialSetup_Inr [OF initial(2)] generateToken_Inr initial(4) show ?thesis
    by (fastforce simp: token_entry_def createSignalUpdates_def js_or_def)
next
  case (change t td ur)
  from handleConfigChange_Inr [OF change(3)] generateToken_Inr change(5) show ?thesis
    by (fastforce simp: token_entry_def createSignalUpdates_def js_or_def)
next
  case (reuse t ur)
  then show ?thesis
    by (auto simp: as_token_def createSignalUpdates_def js_or_def
        split: option.splits kv_value.splits)
qed

lemma onSync_reuse:
  assumes "10 \<le> expirationMinutes (app_config a)" "w_kv_get_ok w"
    and "kv st CURRENT_TOKEN_KEY = Some e" "entry_value e = VToken t"
    and "configHash t = hashConfig (app_config a)"
    and "w_url w (app_url a) = Some ur"
  shows "onSync w a st =
           (Ready \<lparr>su_token = token t, su_expiresAt = expiresAt t, su_issuer = origin ur,
                   su_keyring = js_or (sig_keyring (app_signals a)) (keyring (app_config a))\<rparr>,
            st)"
  using assms
  by (simp add: onSync_def onSync_body_def io_bind_def kv_app_get_def as_token_def
      io_return_def createSignalUpdates_def Let_def)

lemma onSync_second_pass:
  assumes "onSync w a st = (Ready u, st')"
    and "w_kv_get_ok w2" "w_url w2 (app_url a) = Some ur"
  shows "onSync w2 (publish (Ready u) a) st' =
           (Ready \<lparr>su_token = su_token u, su_expiresAt = su_expiresAt u, su_issuer = origin ur,
                   su_keyring = su_keyring u\<rparr>, st')"
proof -
  from onSync_Ready [OF assms(1)] obtain td e where
    e: "kv st' CURRENT_TOKEN_KEY = Some e" "entry_value e = VToken td"
      "configHash td = hashConfig (app_config a)"
      "su_token u = token td" "su_expiresAt u = expiresAt td"
      "js_or (su_keyring u) (keyring (app_config a)) = su_keyring u"
    by blast
  have p: "app_config (publish (Ready u) a) = app_config a"
    "app_url (publish (Ready u) a) = app_url a"
    "sig_keyring (app_signals (publish (Ready u) a)) = su_keyring u"
    by (simp_all add: publish_def)
  from onSync_reuse [of "publish (Ready u) a" w2 st' e td ur]
    onSync_Ready_minutes [OF assms(1)] assms(2,3) e p
  show ?thesis by simp
qed

lemma example_bootstrap:
  "kr = None \<or> kr = Some ''default'' \<Longrightarrow>
   onSync example_world (example_app (example_config 120 kr)) empty_state =
     (Ready \<lparr>su_token = ''signed.jwt'', su_expiresAt = 8200,
             su_issuer = ''https://oidc.example.com'', su_keyring = kr\<rparr>,
      bootstrap_state kr)"
  by (auto simp: program_defs io_defs example_world_def example_app_def example_url_def
      empty_state_def no_signals_def bootstrap_state_def show_int_60 Let_def
      example_config_fields)

text \<open>
  Claim C2, as amended. When the persisted token carries the fingerprint of the current
  configuration and the pass ends ready, \<open>onSync\<close> republishes that token and its expiry
  unchanged and leaves the store and the timers as they were; the keyring it publishes is
  the published keyring signal when there is one, and the keyring of the configuration
  when no keyring has been published. A second pass with the same configuration, run
  after any pass that ended ready, publishes the same token and the same keyring and
  changes nothing.
\<close>

theorem onSync_reuse_republishes:
  "(10 \<le> expirationMinutes (app_config a) \<and> w_kv_get_ok w
      \<and> kv st CURRENT_TOKEN_KEY = Some e \<and> entry_value e = VToken t
      \<and> configHash t = hashConfig (app_config a) \<and> w_url w (app_url a) = Some ur
    \<longrightarrow> onSync w a st =
          (Ready \<lparr>su_token = token t, su_expiresAt = expiresAt t, su_issuer = origin ur,
                  su_keyring = (if truthy (sig_keyring (app_signals a))
                                then sig_keyring (app_signals a)
                                else keyring (app_config a))\<rparr>, st))
   \<and> (onSync w a st = (Ready u, st') \<and> w_kv_get_ok w2 \<and> w_url w2 (app_url a) = Some ur2
    \<longrightarrow> onSync w2 (publish (Ready u) a) st' =
          (Ready \<lparr>su_token = su_token u, su_expiresAt = su_expiresAt u, su_issuer = origin ur2,
                  su_keyring = su_keyring u\<rparr>, st'))"
proof (intro conjI impI)
  assume "10 \<le> expirationMinutes (app_config a) \<and> w_kv_get_ok w
      \<and> kv st CURRENT_TOKEN_KEY = Some e \<and> entry_value e = VToken t
      \<and> configHash t = hashConfig (app_config a) \<and> w_url w (app_url a) = Some ur"
  then show "onSync w a st =
          (Ready \<lparr>su_token = token t, su_expiresAt = expiresAt t, su_issuer = origin ur,
                  su_keyring = (if truthy (sig_keyring (app_signals a))
                                then sig_keyring (app_signals a)
                                else keyring (app_config a))\<rparr>, st)"
    using onSync_reuse [of a w st e t ur] by (simp add: js_or_def)
next
  assume "onSync w a st = (Ready u, st') \<and> w_kv_get_ok w2 \<and> w_url w2 (app_url a) = Some ur2"
  then show "onSync w2 (publish (Ready u) a) st' =
          (Ready \<lparr>su_token = su_token u, su_expiresAt = su_expiresAt u, su_issuer = origin ur2,
                  su_keyring = su_keyring u\<rparr>, st')"
    using onSync_second_pass [of w a st u st' w2 ur2] by simp
qed

theorem onSync_reuse_republishes_witness:
  "onSync example_world (example_app (example_config 120 (Some ''default''))) empty_state =
     (Ready default_updates, bootstrap_state (Some ''default''))
   \<and> onSync example_world
        (publish (Ready default_updates) (example_app (example_config 120 (Some ''default''))))
        (bootstrap_state (Some ''default'')) =
     (Ready default_updates, bootstrap_state (Some ''default''))"
proof -
  let ?a = "example_app (example_config 120 (Some ''default''))"
  let ?a' = "publish (Ready default_updates) ?a"
  let ?s = "bootstrap_state (Some ''default'')"
  let ?t = "\<lparr>token = ''signed.jwt'', expiresAt = 8200,
            configHash = hashConfig (example_config 120 (Some ''default''))\<rparr>"
  let ?e = "\<lparr>entry_value = VToken ?t, entry_ttl = None, entry_createdAt = 1000\<rparr>"
  have first: "onSync example_world ?a empty_state = (Ready default_updates, ?s)"
    using example_bootstrap [of "Some ''default''"] by (simp add: default_updates_def)
  have h: "10 \<le> expirationMinutes (app_config ?a') \<and> w_kv_get_ok example_world
      \<and> kv ?s CURRENT_TOKEN_KEY = Some ?e \<and> entry_value ?e = VToken ?t
      \<and> configHash ?t = hashConfig (app_config ?a')
      \<and> w_url example_world (app_url ?a') = Some example_url"
    by (simp add: publish_def example_app_def example_config_fields example_world_fields
        bootstrap_state_def CURRENT_TOKEN_KEY_def)
  have g: "onSync example_world ?a empty_state = (Ready default_updates, ?s)
      \<and> w_kv_get_ok example_world \<and> w_url example_world (app_url ?a) = Some example_url"
    using first by (simp add: example_world_fields)
  from onSync_reuse_republishes [where a = ?a' and w = example_world and st = ?s and e = ?e
      and t = ?t and ur = example_url, THEN conjunct1, rule_format, OF h]
  have a: "onSync example_world ?a' ?s = (Ready default_updates, ?s)"
    by (simp add: publish_def example_app_def truthy_def default_updates_def example_url_def)
  from onSync_reuse_republishes [where a = ?a and w = example_world and st = empty_state
      and u = default_updates and st' = ?s and ?w2.0 = example_world and ?ur2.0 = example_url,
      THEN conjunct2, rule_format, OF g]
  have b: "onSync example_world ?a' ?s = (Ready default_updates, ?s)"
    by (simp add: default_updates_def example_url_def)
  from first a b show ?thesis by simp
qed

text \<open>
  Claim C2 as stated fails: a first pass stores key and token and then fails to arm its
  timer, so it publishes nothing; the next pass finds the token with the current
  fingerprint and publishes the keyring \<open>v2\<close> of the configuration, where no keyring had
  been published before.
\<close>

theorem onSync_reuse_recomputes_keyring:
  "onSync (example_world\<lparr>w_timers_set := None\<rparr>)
      (example_app (example_config 120 (Some ''v2''))) empty_state =
     (Failed ''Sync error, see logs'', stalled_state)
   \<and> sig_keyring (app_signals (example_app (example_config 120 (Some ''v2'')))) = None
   \<and> onSync example_world (example_app (example_config 120 (Some ''v2''))) stalled_state =
       (Ready \<lparr>su_token = ''signed.jwt'', su_expiresAt = 8200,
               su_issuer = ''https://oidc.example.com'', su_keyring = Some ''v2''\<rparr>,
        stalled_state)"
  by (simp add: program_defs io_defs example_world_def example_app_def example_url_def
      empty_state_def no_signals_def stalled_state_def Let_def example_config_fields)

text \<open>
  Claim C10. A first pass (no persisted token) with no keyring in the configuration that
  ends ready has stored the public key under \<open>key:default:\<close>, live for the lifetime of
  the key, and publishes no keyring; the key set served after that pass is empty.
\<close>

theorem bootstrap_without_keyring:
  assumes "keyring (app_config a) = None"
    and "kv st CURRENT_TOKEN_KEY = None"
    and "onSync w a st = (Ready u, st')"
  shows "\<exists>e pub x. kv st' (''key:default:'' @ w_keyId w) = Some e
           \<and> entry_value e = VJwk pub
           \<and> entry_expiresAt e = Some x \<and> w_now w < x
           \<and> su_keyring u = None
           \<and> handleJWKs w2 rid (publish (Ready u) a) =
               Some (Inr \<lparr>requestId = rid, statusCode = 200, headers = JWKS_RESPONSE_HEADERS,
                          body_keys = []\<rparr>)"
  using assms(3)
proof (cases rule: onSync_Ready_cases)
  case (initial td ur)
  from onSync_Ready_minutes [OF assms(3)] have m: "10 \<le> expirationMinutes (app_config a)" .
  from initial(4) assms(1) have k: "su_keyring u = None"
    by (simp add: createSignalUpdates_def)
  then have j: "handleJWKs w2 rid (publish (Ready u) a) =
               Some (Inr \<lparr>requestId = rid, statusCode = 200, headers = JWKS_RESPONSE_HEADERS,
                          body_keys = []\<rparr>)"
    by (simp add: handleJWKs_def publish_def truthy_def)
  from handleInitialSetup_Inr [OF initial(2)] obtain pub where
    "kv st' (newKeyName w (app_config a)) = Some (key_entry w (app_config a) pub)"
    by auto
  with assms(1) have e: "kv st' (''key:default:'' @ w_keyId w) = Some (key_entry w (app_config a) pub)"
    by (simp add: newKeyName_def getKeyPrefix_def)
  have "entry_value (key_entry w (app_config a) pub) = VJwk pub"
    and "entry_expiresAt (key_entry w (app_config a) pub)
           = Some (w_now w + (30 + expirationMinutes (app_config a)) * 60)"
    by (simp_all add: key_entry_def entry_expiresAt_def KEY_GRACE_PERIOD_MINUTES_def)
  with e m k j show ?thesis by auto
next
  case (change t td ur)
  with assms(2) show ?thesis by (simp add: as_token_def)
next
  case (reuse t ur)
  with assms(2) show ?thesis by (simp add: as_token_def)
qed

theorem bootstrap_without_keyring_witness:
  "onSync example_world (example_app (example_config 120 None)) empty_state =
     (Ready \<lparr>su_token = ''signed.jwt'', su_expiresAt = 8200,
             su_issuer = ''https://oidc.example.com'', su_keyring = None\<rparr>,
      bootstrap_state None)
   \<and> (\<exists>e. kv (bootstrap_state None) ''key:default:kid-1'' = Some e
          \<and> entry_value e = VJwk [(''n'', JStr ''public'')]
          \<and> entry_expiresAt e = Some 10000)
   \<and> handleJWKs example_world ''req-1''
        (publish (Ready \<lparr>su_token = ''signed.jwt'', su_expiresAt = 8200,
                         su_issuer = ''https://oidc.example.com'', su_keyring = None\<rparr>)
           (example_app (example_config 120 None)))
      = Some (Inr \<lparr>requestId = ''req-1'', statusCode = 200, headers = JWKS_RESPONSE_HEADERS,
                   body_keys = []\<rparr>)"
proof -
  let ?a = "example_app (example_config 120 None)"
  let ?u = "\<lparr>su_token = ''signed.jwt'', su_expiresAt = 8200,
             su_issuer = ''https://oidc.example.com'', su_keyring = None\<rparr>"
  have f: "onSync example_world ?a empty_state = (Ready ?u, bootstrap_state None)"
    using example_bootstrap [of None] by simp
  have k: "keyring (app_config ?a) = None" "kv empty_state CURRENT_TOKEN_KEY = None"
    by (simp_all add: example_app_def example_config_fields empty_state_def)
  from bootstrap_without_keyring [OF k f, of example_world "''req-1''"] f show ?thesis
    by (auto simp: example_world_fields bootstrap_state_def entry_expiresAt_def)
qed

section \<open>Rotation and retry\<close>

lemma onTimer_catch_ok:
  assumes "w_retry_timers_set w = Some rid" "w_retry_kv_set_ok w"
  shows "onTimer_catch w e st =
           (Inr (), st\<lparr>timers := timers st @ [retry_timer rid],
                       kv := (kv st)(ROTATION_TIMER_KEY \<mapsto> timer_entry w rid)\<rparr>)"
  using assms
  by (simp add: onTimer_catch_def io_bind_def timers_set_def kv_app_set_def kv_put_def
      retry_timer_def timer_entry_def)

lemma onTimer_try_generation_fails:
  assumes "isl (fst (generateKeyAndToken w (app_config a) (app_url a) st))"
  shows "\<exists>e. onTimer_try w a st = (Inl e, st)"
proof -
  obtain r st1 where g: "generateKeyAndToken w (app_config a) (app_url a) st = (r, st1)"
    by (cases "generateKeyAndToken w (app_config a) (app_url a) st")
  with assms obtain e where r: "r = Inl e" by (cases r) simp_all
  from generateKeyAndToken_Inl [OF g [unfolded r]] have "st1 = st" .
  with g r show ?thesis
    by (simp add: onTimer_try_def io_bind_def Let_def)
qed

lemma onTimer_try_sync_fails:
  assumes "generateKeyAndToken w (app_config a) (app_url a) st = (Inr td, st1)"
    and "\<not> w_sync_ok w"
  shows "onTimer_try w a st = (Inl SyncError, st1)"
  using assms
  by (simp add: onTimer_try_def io_bind_def Let_def lifecycle_sync_def)

text \<open>
  What the failure path gets right. When \<open>generateKeyAndToken\<close> fails (key or token
  generation, or storing them) or the sync request fails, and arming the retry and storing
  its handle succeed, \<open>onTimer\<close> arms exactly one wakeup, 300 seconds ahead, and stores
  its handle; it requests no reconciliation, and every entry of the store other than the
  timer handle, the current token and the key of this rotation is what it was. The last
  conjunct takes a failing \<open>kv.app.setMany\<close> to write nothing, as the model of the store
  does.
\<close>

lemma onTimer_failure_retry:
  assumes "isl (fst (generateKeyAndToken w (app_config a) (app_url a) st)) \<or> \<not> w_sync_ok w"
    and "w_retry_timers_set w = Some rid" "w_retry_kv_set_ok w"
  shows "\<exists>st'. onTimer w a st = (Inr (), st')
           \<and> timers st' = timers st @ [retry_timer rid]
           \<and> timer_delay (retry_timer rid) = 300
           \<and> kv st' ROTATION_TIMER_KEY = Some (timer_entry w rid)
           \<and> sync_requests st' = sync_requests st
           \<and> (\<forall>k. k \<notin> {ROTATION_TIMER_KEY, CURRENT_TOKEN_KEY, newKeyName w (app_config a)}
                  \<longrightarrow> kv st' k = kv st k)
           \<and> (isl (fst (generateKeyAndToken w (app_config a) (app_url a) st))
                  \<longrightarrow> kv st' = (kv st)(ROTATION_TIMER_KEY \<mapsto> timer_entry w rid))"
proof (cases "isl (fst (generateKeyAndToken w (app_config a) (app_url a) st))")
  case True
  from onTimer_try_generation_fails [OF True] obtain e where
    "onTimer_try w a st = (Inl e, st)" ..
  with onTimer_catch_ok [OF assms(2,3)] True show ?thesis
    by (simp add: onTimer_def io_catch_def retry_timer_def)
next
  case False
  obtain r st1 where "generateKeyAndToken w (app_config a) (app_url a) st = (r, st1)"
    by (cases "generateKeyAndToken w (app_config a) (app_url a) st")
  with False obtain td where
    g: "generateKeyAndToken w (app_config a) (app_url a) st = (Inr td, st1)"
    by (cases r) simp_all
  from False assms(1) have "\<not> w_sync_ok w" by simp
  from onTimer_try_sync_fails [OF g this] onTimer_catch_ok [OF assms(2,3)]
    generateKeyAndToken_Inr [OF g] False
  show ?thesis
    by (auto simp: onTimer_def io_catch_def retry_timer_def)
qed

lemma onTimer_generation_fails_example:
  "\<exists>st'. onTimer (example_world\<lparr>w_keyPair := None\<rparr>) (example_app (example_config 120 None))
             (bootstrap_state None) = (Inr (), st')
         \<and> timers st' = timers (bootstrap_state None) @ [retry_timer ''timer-2'']
         \<and> kv st' = (kv (bootstrap_state None))
                       (''rotation_timer_id'' \<mapsto>
                          \<lparr>entry_value = VTimer ''timer-2'', entry_ttl = None,
                           entry_createdAt = 1000\<rparr>)
         \<and> sync_requests st' = 0"
proof -
  let ?w = "example_world\<lparr>w_keyPair := None\<rparr>"
  let ?a = "example_app (example_config 120 None)"
  have h: "isl (fst (generateKeyAndToken ?w (app_config ?a) (app_url ?a) (bootstrap_state None)))
           \<or> \<not> w_sync_ok ?w"
    by (simp add: generateKeyAndToken_def)
  have r: "w_retry_timers_set ?w = Some ''timer-2''" "w_retry_kv_set_ok ?w"
    by (simp_all add: example_world_def)
  from onTimer_failure_retry [OF h r] h show ?thesis
    by (auto simp: timer_entry_def ROTATION_TIMER_KEY_def example_world_def bootstrap_state_def)
qed


end
